theory Spec2Isabelle
  imports Complex_Main
begin

section \<open>Exceptions\<close>

text \<open>
  The exceptions that the code of \<^verbatim>\<open>main.py\<close> can meet. \<open>ClientError\<close> stands for
  \<^verbatim>\<open>aiohttp.ClientError\<close> raised by the transport, \<open>ClientResponseError\<close> for the
  subclass raised by \<^verbatim>\<open>raise_for_status()\<close>. \<open>TimeoutError\<close>, \<open>ValueError\<close>,
  \<open>IndexError\<close> and \<open>RuntimeError\<close> are not subclasses of \<^verbatim>\<open>aiohttp.ClientError\<close>.
  \<open>KeyboardInterrupt\<close> and \<open>CancelledError\<close> derive from \<^verbatim>\<open>BaseException\<close> only.
\<close>

datatype exn =
    ClientError
  | ClientResponseError
  | TimeoutError
  | ValueError
  | IndexError
  | RuntimeError
  | ZeroDivisionError
  | OperationalError
  | SystemExit
  | KeyboardInterrupt
  | CancelledError

text \<open>\<^verbatim>\<open>except aiohttp.ClientError\<close> catches exactly these.\<close>

fun is_ClientError :: "exn \<Rightarrow> bool" where
  "is_ClientError ClientError = True"
| "is_ClientError ClientResponseError = True"
| "is_ClientError _ = False"

text \<open>\<^verbatim>\<open>except Exception\<close> catches everything but the \<^verbatim>\<open>BaseException\<close>-only classes.\<close>

fun is_Exception :: "exn \<Rightarrow> bool" where
  "is_Exception SystemExit = False"
| "is_Exception KeyboardInterrupt = False"
| "is_Exception CancelledError = False"
| "is_Exception _ = True"

section \<open>Python floats\<close>

text \<open>
  A Python float is an IEEE 754 binary64 number. The model takes the finite ones as
  rationals and rounds the exact result of every operation to the nearest number with a
  53-bit significand, ties to even. The exponent is not bounded: overflow to infinity,
  subnormal results, NaN and the sign of zero are outside the model.
\<close>

type_synonym pyfloat = rat

definition round_half_even :: "rat \<Rightarrow> int" where
  "round_half_even x =
     (let f = \<lfloor>x\<rfloor>; d = x - of_int f
      in if d < 1 / 2 then f
         else if 1 / 2 < d then f + 1
         else if even f then f else f + 1)"

text \<open>\<^verbatim>\<open>int.bit_length\<close> of a non-negative integer.\<close>

function bit_length :: "int \<Rightarrow> nat" where
  "bit_length n = (if n \<le> 0 then 0 else Suc (bit_length (n div 2)))"
  by pat_completeness auto
termination
  by (relation "measure nat") auto

definition pow2 :: "int \<Rightarrow> rat" where
  "pow2 e = (if 0 \<le> e then 2 ^ nat e else 1 / 2 ^ nat (- e))"

definition fl :: "rat \<Rightarrow> pyfloat" where
  "fl x =
     (if x = 0 then 0
      else
        let (a, b) = quotient_of \<bar>x\<bar>;
            e0 = int (bit_length a) - int (bit_length b) - 53;
            e = (if \<bar>x\<bar> / pow2 e0 < 2 ^ 53 then e0 else e0 + 1)
        in sgn x * of_int (round_half_even (\<bar>x\<bar> / pow2 e)) * pow2 e)"

definition fsub :: "pyfloat \<Rightarrow> pyfloat \<Rightarrow> pyfloat" where
  "fsub a b = fl (a - b)"

definition fmul :: "pyfloat \<Rightarrow> pyfloat \<Rightarrow> pyfloat" where
  "fmul a b = fl (a * b)"

text \<open>Python's float division raises on a zero divisor.\<close>

definition fdiv :: "pyfloat \<Rightarrow> pyfloat \<Rightarrow> exn + pyfloat" where
  "fdiv a b = (if b = 0 then Inl ZeroDivisionError else Inr (fl (a / b)))"

section \<open>Strings\<close>

text \<open>The decimal digits of a non-negative integer.\<close>

function show_nat :: "int \<Rightarrow> string" where
  "show_nat n =
     (if n < 10 then [''0123456789'' ! nat n]
      else show_nat (n div 10) @ [''0123456789'' ! nat (n mod 10)])"
  by pat_completeness auto
termination
  by (relation "measure nat") auto

text \<open>
  The format specification \<^verbatim>\<open>.<d>f\<close> for \<open>d > 0\<close>: the value rounded to \<open>d\<close> decimals
  (the exact value, ties to even), with a sign for a negative value and exactly \<open>d\<close>
  digits after the point.
\<close>

definition fmt_fixed :: "nat \<Rightarrow> pyfloat \<Rightarrow> string" where
  "fmt_fixed d x =
     (let n = round_half_even (\<bar>x\<bar> * 10 ^ d);
          ip = show_nat (n div 10 ^ d);
          fp = show_nat (n mod 10 ^ d)
      in (if x < 0 then ''-'' else []) @ ip @ ''.''
           @ replicate (d - length fp) (CHR ''0'') @ fp)"

text \<open>\<^verbatim>\<open>str.upper\<close> on ASCII letters; other characters are kept.\<close>

definition upper_char :: "char \<Rightarrow> char" where
  "upper_char c =
     (let n = (of_char c :: nat) in if 97 \<le> n \<and> n \<le> 122 then char_of (n - 32) else c)"

definition upper :: "string \<Rightarrow> string" where
  "upper s = map upper_char s"

text \<open>\<^verbatim>\<open>s.split(sep)\<close> for a one-character separator.\<close>

fun split :: "char \<Rightarrow> string \<Rightarrow> string list" where
  "split sep [] = [[]]"
| "split sep (c # cs) =
     (if c = sep then [] # split sep cs
      else (case split sep cs of [] \<Rightarrow> [[c]] | w # ws \<Rightarrow> (c # w) # ws))"

text \<open>\<^verbatim>\<open>str.strip()\<close>: the ASCII characters for which \<^verbatim>\<open>str.isspace\<close> holds are removed at both ends.\<close>

definition is_space :: "char \<Rightarrow> bool" where
  "is_space c = (let n = (of_char c :: nat) in (9 \<le> n \<and> n \<le> 13) \<or> (28 \<le> n \<and> n \<le> 32))"

definition strip :: "string \<Rightarrow> string" where
  "strip s = rev (dropWhile is_space (rev (dropWhile is_space s)))"

text \<open>
  \<^verbatim>\<open>int(s)\<close> and \<^verbatim>\<open>float(s)\<close>: on a non-empty string of ASCII digits the value is the
  decimal number (for a float, rounded); the empty string raises \<^verbatim>\<open>ValueError\<close>. What
  Python does with any other string (signs, blanks, exponents, underscores) is the
  parameter \<open>other\<close>.
\<close>

definition digit_val :: "char \<Rightarrow> int option" where
  "digit_val c =
     (let n = (of_char c :: nat) in if 48 \<le> n \<and> n \<le> 57 then Some (int n - 48) else None)"

fun digits_val :: "int \<Rightarrow> string \<Rightarrow> int option" where
  "digits_val acc [] = Some acc"
| "digits_val acc (c # cs) =
     (case digit_val c of None \<Rightarrow> None | Some d \<Rightarrow> digits_val (10 * acc + d) cs)"

definition py_int :: "(string \<Rightarrow> exn + int) \<Rightarrow> string \<Rightarrow> exn + int" where
  "py_int other s =
     (if s = [] then Inl ValueError
      else case digits_val 0 s of Some n \<Rightarrow> Inr n | None \<Rightarrow> other s)"

definition py_float :: "(string \<Rightarrow> exn + pyfloat) \<Rightarrow> string \<Rightarrow> exn + pyfloat" where
  "py_float other s =
     (if s = [] then Inl ValueError
      else case digits_val 0 s of Some n \<Rightarrow> Inr (fl (of_int n)) | None \<Rightarrow> other s)"

section \<open>Configuration\<close>

text \<open>
  The module-level code of \<^verbatim>\<open>main.py\<close>, lines 17 to 32. The process environment and the
  contents of the \<^verbatim>\<open>.env\<close> file are maps from names to values (an absent file is the
  empty map).
\<close>

type_synonym environ = "string \<rightharpoonup> string"

definition getenv :: "environ \<Rightarrow> string \<Rightarrow> string \<Rightarrow> string" where
  "getenv env k d = (case env k of None \<Rightarrow> d | Some v \<Rightarrow> v)"

text \<open>
  \<^verbatim>\<open>load_dotenv()\<close> of python-dotenv, called without arguments (\<^verbatim>\<open>override=False\<close>): a
  variable of the file is set in the process environment unless the environment
  defines it already.
\<close>

definition load_dotenv :: "environ \<Rightarrow> environ \<Rightarrow> environ" where
  "load_dotenv dotenv env = (\<lambda>k. case env k of Some v \<Rightarrow> Some v | None \<Rightarrow> dotenv k)"

record config =
  INTERVAL :: string
  THRESHOLD :: pyfloat
  POLL_SECONDS :: int
  QUOTE :: string
  EXCLUDED :: "string set"
  TELEGRAM_BOT_TOKEN :: string
  TELEGRAM_CHAT_ID :: string
  DB_PATH :: string

text \<open>A string option is truthy in Python when it is a non-empty string.\<close>

definition truthy :: "string option \<Rightarrow> bool" where
  "truthy v = (case v of None \<Rightarrow> False | Some s \<Rightarrow> s \<noteq> [])"

definition module_init ::
  "(string \<Rightarrow> exn + pyfloat) \<Rightarrow> (string \<Rightarrow> exn + int) \<Rightarrow> environ \<Rightarrow> environ \<Rightarrow> exn + config"
where
  "module_init float_other int_other env dotenv =
     (let interval = getenv env ''INTERVAL'' ''15m'' in
      case py_float float_other (getenv env ''THRESHOLD'' ''6'') of
        Inl e \<Rightarrow> Inl e
      | Inr threshold \<Rightarrow>
      (case py_int int_other (getenv env ''POLL_SECONDS'' ''60'') of
        Inl e \<Rightarrow> Inl e
      | Inr poll_seconds \<Rightarrow>
        let quote = getenv env ''QUOTE'' ''USDT'';
            excluded =
              (if truthy (env ''EXCLUDED'')
               then set (split (CHR '','') (upper (getenv env ''EXCLUDED'' [])))
               else {});
            env' = load_dotenv dotenv env;
            token = strip (getenv env' ''TELEGRAM_BOT_TOKEN'' []);
            chat_id = strip (getenv env' ''TELEGRAM_CHAT_ID'' [])
        in if token = [] \<or> chat_id = [] then Inl SystemExit
           else Inr \<lparr>INTERVAL = interval, THRESHOLD = threshold,
                     POLL_SECONDS = poll_seconds, QUOTE = quote, EXCLUDED = excluded,
                     TELEGRAM_BOT_TOKEN = token, TELEGRAM_CHAT_ID = chat_id,
                     DB_PATH = getenv env' ''DB_PATH'' ''alerts.db''\<rparr>))"

section \<open>Dedup store\<close>

text \<open>
  The SQLite file at \<^verbatim>\<open>DB_PATH\<close>: either it has no table \<^verbatim>\<open>alerts\<close> yet, or the table
  holds rows \<open>(symbol, open_time)\<close> in insertion order. \<open>open_time\<close> is an epoch time in
  milliseconds, inside the range of an SQLite \<^verbatim>\<open>INTEGER\<close>.
\<close>

type_synonym alert_key = "string \<times> int"

type_synonym database = "alert_key list option"

text \<open>\<^verbatim>\<open>CREATE TABLE IF NOT EXISTS alerts (..., PRIMARY KEY(symbol, open_time))\<close>\<close>

definition db_init :: "database \<Rightarrow> database" where
  "db_init db = (case db of None \<Rightarrow> Some [] | Some rows \<Rightarrow> Some rows)"

text \<open>\<^verbatim>\<open>SELECT 1 FROM alerts WHERE symbol=? AND open_time=?\<close>; no table is an error of SQLite.\<close>

definition already_alerted :: "database \<Rightarrow> string \<Rightarrow> int \<Rightarrow> exn + bool" where
  "already_alerted db symbol open_time =
     (case db of
        None \<Rightarrow> Inl OperationalError
      | Some rows \<Rightarrow> Inr ((symbol, open_time) \<in> set rows))"

text \<open>\<^verbatim>\<open>INSERT OR IGNORE INTO alerts(symbol, open_time) VALUES (?,?)\<close>: a row that would
  break the primary key is ignored.\<close>

definition mark_alerted :: "database \<Rightarrow> string \<Rightarrow> int \<Rightarrow> exn + database" where
  "mark_alerted db symbol open_time =
     (case db of
        None \<Rightarrow> Inl OperationalError
      | Some rows \<Rightarrow>
          Inr (Some (if (symbol, open_time) \<in> set rows then rows
                     else rows @ [(symbol, open_time)])))"

text \<open>The rows of the table; none when there is no table.\<close>

definition rows_of :: "database \<Rightarrow> alert_key list" where
  "rows_of db = (case db of None \<Rightarrow> [] | Some rows \<Rightarrow> rows)"

section \<open>Market data client\<close>

text \<open>
  What the network answers to one request: a response with its HTTP status and decoded
  JSON body (the body matters for a status below 400 only), or an exception raised by
  \<^verbatim>\<open>session.get\<close>, \<^verbatim>\<open>session.post\<close> or \<^verbatim>\<open>r.json()\<close>.
\<close>

datatype 'a reply = Response nat 'a | Raises exn

text \<open>\<^verbatim>\<open>r.raise_for_status()\<close> of aiohttp raises for a status of 400 or more.\<close>

definition raise_for_status :: "nat \<Rightarrow> exn + unit" where
  "raise_for_status st = (if 400 \<le> st then Inl ClientResponseError else Inr ())"

text \<open>One entry of \<^verbatim>\<open>data["symbols"]\<close>; \<open>None\<close> is what \<^verbatim>\<open>s.get(...)\<close> gives for a missing key.\<close>

record symbol_info =
  status :: "string option"
  contractType :: "string option"
  quoteAsset :: "string option"
  symbol :: "string option"

text \<open>The loop of \<^verbatim>\<open>get_symbols\<close>, lines 73 to 84.\<close>

fun get_symbols_loop :: "config \<Rightarrow> symbol_info list \<Rightarrow> string list \<Rightarrow> string list" where
  "get_symbols_loop cfg [] symbols = symbols"
| "get_symbols_loop cfg (s # rest) symbols =
     (if status s \<noteq> Some ''TRADING'' then get_symbols_loop cfg rest symbols
      else if contractType s \<noteq> Some ''PERPETUAL'' then get_symbols_loop cfg rest symbols
      else if quoteAsset s \<noteq> Some (QUOTE cfg) then get_symbols_loop cfg rest symbols
      else (case symbol s of
              None \<Rightarrow> get_symbols_loop cfg rest symbols
            | Some symb \<Rightarrow>
                if symb = [] \<or> symb \<in> EXCLUDED cfg then get_symbols_loop cfg rest symbols
                else get_symbols_loop cfg rest (symbols @ [symb])))"

text \<open>The body of the exchange-info response is \<^verbatim>\<open>data.get("symbols")\<close>.\<close>

definition get_symbols :: "config \<Rightarrow> symbol_info list option reply \<Rightarrow> exn + string list" where
  "get_symbols cfg r =
     (case r of
        Raises e \<Rightarrow> Inl e
      | Response st data \<Rightarrow>
          (case raise_for_status st of
             Inl e \<Rightarrow> Inl e
           | Inr _ \<Rightarrow> Inr (get_symbols_loop cfg (case data of None \<Rightarrow> [] | Some l \<Rightarrow> l) [])))"

text \<open>The dictionary that \<^verbatim>\<open>get_latest_15m_kline\<close> returns.\<close>

record kline =
  k_open_time :: int
  k_open :: pyfloat
  k_high :: pyfloat
  k_low :: pyfloat
  k_close :: pyfloat
  k_close_time :: int

text \<open>
  The body of a klines response is a list of rows. Of a row the model keeps what its
  conversion by \<^verbatim>\<open>int(k[0])\<close>, \<^verbatim>\<open>float(k[1])\<close>, ... yields: the dictionary, or the exception
  that a short or non-numeric row raises.
\<close>

type_synonym kline_reply = "(exn + kline) list reply"

text \<open>
  What a retrying call did: its result (a raised exception on the left), the seconds
  passed to \<^verbatim>\<open>asyncio.sleep\<close> in order, and the number of requests made.
\<close>

record 'a outcome =
  result :: "exn + 'a"
  sleeps :: "nat list"
  attempts :: nat

definition returned :: "'a \<Rightarrow> 'a outcome" where
  "returned v = \<lparr>result = Inr v, sleeps = [], attempts = 1\<rparr>"

definition raised_exn :: "exn \<Rightarrow> 'a outcome" where
  "raised_exn e = \<lparr>result = Inl e, sleeps = [], attempts = 1\<rparr>"

definition slept :: "nat \<Rightarrow> 'a outcome \<Rightarrow> 'a outcome" where
  "slept d r = r\<lparr>sleeps := d # sleeps r, attempts := Suc (attempts r)\<rparr>"

text \<open>
  The loop \<^verbatim>\<open>for attempt in range(3)\<close> of \<^verbatim>\<open>get_latest_15m_kline\<close>, with \<open>n\<close> iterations
  left and \<open>attempt\<close> the current index; \<open>net attempt\<close> is the answer to that request.
\<close>

fun kline_loop :: "(nat \<Rightarrow> kline_reply) \<Rightarrow> nat \<Rightarrow> nat \<Rightarrow> kline option outcome" where
  "kline_loop net 0 attempt = \<lparr>result = Inr None, sleeps = [], attempts = 0\<rparr>"
| "kline_loop net (Suc n) attempt =
     (case net attempt of
        Raises e \<Rightarrow>
          if is_ClientError e then slept (1 + attempt * 2) (kline_loop net n (Suc attempt))
          else raised_exn e
      | Response st arr \<Rightarrow>
          if st \<in> {418, 429, 451} then slept (1 + attempt * 2) (kline_loop net n (Suc attempt))
          else (case raise_for_status st of
                  Inl e \<Rightarrow> slept (1 + attempt * 2) (kline_loop net n (Suc attempt))
                | Inr _ \<Rightarrow>
                    (case arr of
                       [] \<Rightarrow> returned None
                     | row # _ \<Rightarrow>
                         (case row of
                            Inl e \<Rightarrow>
                              if is_ClientError e
                              then slept (1 + attempt * 2) (kline_loop net n (Suc attempt))
                              else raised_exn e
                          | Inr k \<Rightarrow> returned (Some k)))))"

definition get_latest_15m_kline :: "(nat \<Rightarrow> kline_reply) \<Rightarrow> kline option outcome" where
  "get_latest_15m_kline net = kline_loop net 3 0"

section \<open>Notifier\<close>

text \<open>The loop \<^verbatim>\<open>for attempt in range(3)\<close> of \<^verbatim>\<open>send_telegram\<close>.\<close>

fun send_loop :: "(nat \<Rightarrow> unit reply) \<Rightarrow> nat \<Rightarrow> nat \<Rightarrow> bool outcome" where
  "send_loop net 0 attempt = \<lparr>result = Inr False, sleeps = [], attempts = 0\<rparr>"
| "send_loop net (Suc n) attempt =
     (case net attempt of
        Raises e \<Rightarrow>
          if is_ClientError e then slept (1 + attempt * 2) (send_loop net n (Suc attempt))
          else raised_exn e
      | Response st _ \<Rightarrow>
          if st \<in> {429, 500, 502, 503, 504}
          then slept (1 + attempt * 2) (send_loop net n (Suc attempt))
          else (case raise_for_status st of
                  Inl e \<Rightarrow> slept (1 + attempt * 2) (send_loop net n (Suc attempt))
                | Inr _ \<Rightarrow> returned True))"

definition send_telegram :: "(nat \<Rightarrow> unit reply) \<Rightarrow> bool outcome" where
  "send_telegram net = send_loop net 3 0"

section \<open>Alert text\<close>

definition fmt_pct :: "pyfloat \<Rightarrow> string" where
  "fmt_pct p = fmt_fixed 2 p @ ''%''"

text \<open>
  Strings are byte lists here: the two arrows are their UTF-8 encodings and the line
  break is the byte 10. \<^verbatim>\<open>time.strftime('%Y-%m-%d %H:%M:%S', time.gmtime(t))\<close> is the
  parameter \<open>strftime_gmtime\<close>.
\<close>

definition arrow_up :: string where
  "arrow_up = [CHR 0xE2, CHR 0x96, CHR 0xB2]"

definition arrow_down :: string where
  "arrow_down = [CHR 0xE2, CHR 0x96, CHR 0xBC]"

definition make_alert_text ::
  "config \<Rightarrow> (pyfloat \<Rightarrow> string) \<Rightarrow> string \<Rightarrow> kline \<Rightarrow> pyfloat \<Rightarrow> string"
where
  "make_alert_text cfg strftime_gmtime symb k pct =
     (let direction = (if k_open k \<le> k_close k then arrow_up @ '' UP''
                       else arrow_down @ '' DOWN'')
      in ''<b>'' @ symb @ ''</b> '' @ direction @ [CHR 0x0A]
         @ ''Interval: '' @ INTERVAL cfg @ '' | Move: <b>'' @ fmt_pct \<bar>pct\<bar> @ ''</b>'' @ [CHR 0x0A]
         @ ''Open: '' @ fmt_fixed 6 (k_open k) @ '' | Close: '' @ fmt_fixed 6 (k_close k) @ [CHR 0x0A]
         @ ''High: '' @ fmt_fixed 6 (k_high k) @ '' | Low: '' @ fmt_fixed 6 (k_low k) @ [CHR 0x0A]
         @ ''Open Time: '' @ strftime_gmtime (fl (of_int (k_open_time k) / 1000)) @ '' UTC'')"

section \<open>Scan orchestrator\<close>

text \<open>\<^verbatim>\<open>pct = (k["close"] - k["open"]) / k["open"] * 100.0\<close>\<close>

definition pct_move :: "kline \<Rightarrow> exn + pyfloat" where
  "pct_move k =
     (case fdiv (fsub (k_close k) (k_open k)) (k_open k) of
        Inl e \<Rightarrow> Inl e
      | Inr q \<Rightarrow> Inr (fmul q 100))"

text \<open>
  A worker is a coroutine; the other workers of the cycle can run wherever it awaits.
  It touches the store in two places, with \<^verbatim>\<open>await send_telegram(text)\<close> between them.
  So a worker is in one of these states: its candle request is in flight (\<open>Fetching\<close>),
  its notification is in flight (\<open>Sending\<close>, with the values of \<^verbatim>\<open>sym\<close>, \<^verbatim>\<open>k\<close> and
  \<^verbatim>\<open>pct\<close>), it has returned, or it has raised.
\<close>

datatype task = Fetching string | Sending string kline pyfloat | Finished | Raised exn

text \<open>
  What can be observed of the notifier: \<open>Attempt\<close> is a call of \<^verbatim>\<open>send_telegram\<close> with
  the text, for the candle of a symbol; \<open>Delivered\<close> and \<open>Undelivered\<close> are its returning
  \<^verbatim>\<open>True\<close> and \<^verbatim>\<open>False\<close>.
\<close>

datatype event =
    Attempt string int string
  | Delivered string int
  | Undelivered string int

text \<open>
  Lines 153 to 160 of \<^verbatim>\<open>worker\<close>: from the answer to the candle request up to the call
  of \<^verbatim>\<open>send_telegram\<close>. The store is read, not written.
\<close>

definition worker_evaluate ::
  "config \<Rightarrow> (pyfloat \<Rightarrow> string) \<Rightarrow> database \<Rightarrow> string \<Rightarrow> (nat \<Rightarrow> kline_reply)
     \<Rightarrow> task \<times> event list"
where
  "worker_evaluate cfg strftime_gmtime db symb net =
     (case result (get_latest_15m_kline net) of
        Inl e \<Rightarrow> (Raised e, [])
      | Inr None \<Rightarrow> (Finished, [])
      | Inr (Some k) \<Rightarrow>
          (case pct_move k of
             Inl e \<Rightarrow> (Raised e, [])
           | Inr pct \<Rightarrow>
               if THRESHOLD cfg \<le> \<bar>pct\<bar> then
                 (case already_alerted db symb (k_open_time k) of
                    Inl e \<Rightarrow> (Raised e, [])
                  | Inr True \<Rightarrow> (Finished, [])
                  | Inr False \<Rightarrow>
                      (Sending symb k pct,
                       [Attempt symb (k_open_time k)
                          (make_alert_text cfg strftime_gmtime symb k pct)]))
               else (Finished, [])))"

text \<open>
  Lines 160 to 163 of \<^verbatim>\<open>worker\<close>: from the return of \<^verbatim>\<open>send_telegram\<close> to the end. The
  last component is what is appended to \<^verbatim>\<open>alerts\<close>.
\<close>

definition worker_deliver ::
  "database \<Rightarrow> string \<Rightarrow> kline \<Rightarrow> pyfloat \<Rightarrow> (nat \<Rightarrow> unit reply)
     \<Rightarrow> task \<times> database \<times> event list \<times> (string \<times> pyfloat) list"
where
  "worker_deliver db symb k pct post =
     (case result (send_telegram post) of
        Inl e \<Rightarrow> (Raised e, db, [], [])
      | Inr ok \<Rightarrow>
          if ok then
            (case mark_alerted db symb (k_open_time k) of
               Inl e \<Rightarrow> (Raised e, db, [Delivered symb (k_open_time k)], [])
             | Inr db' \<Rightarrow>
                 (Finished, db', [Delivered symb (k_open_time k)], [(symb, pct)]))
          else (Finished, db, [Undelivered symb (k_open_time k)], []))"

text \<open>The whole of \<^verbatim>\<open>worker\<close>, when no other worker runs between its two parts.\<close>

definition worker ::
  "config \<Rightarrow> (pyfloat \<Rightarrow> string) \<Rightarrow> database \<Rightarrow> string \<Rightarrow> (nat \<Rightarrow> kline_reply)
     \<Rightarrow> (nat \<Rightarrow> unit reply) \<Rightarrow> task \<times> database \<times> event list \<times> (string \<times> pyfloat) list"
where
  "worker cfg strftime_gmtime db symb net post =
     (case worker_evaluate cfg strftime_gmtime db symb net of
        (Sending s k pct, evs) \<Rightarrow>
          (case worker_deliver db s k pct post of
             (t, db', evs', al) \<Rightarrow> (t, db', evs @ evs', al))
      | (t, evs) \<Rightarrow> (t, db, evs, []))"

text \<open>
  One run of \<^verbatim>\<open>check_once\<close> after the symbols are known: the store, one task for each
  symbol in the order of \<^verbatim>\<open>asyncio.gather\<close>, the notifier events so far, the list
  \<^verbatim>\<open>alerts\<close>, and the exception that \<^verbatim>\<open>gather\<close> has re-raised, if any. \<open>orphans\<close> are
  the workers of earlier cycles that are still in the event loop: \<^verbatim>\<open>gather\<close> does not
  cancel the other workers when one raises, and a worker inside \<^verbatim>\<open>send_telegram\<close> has
  its own session, so it goes on after its cycle has raised.
\<close>

record cycle =
  store :: database
  tasks :: "task list"
  events :: "event list"
  alerts :: "(string \<times> pyfloat) list"
  raised :: "exn option"
  orphans :: "task list"

text \<open>
  The event loop resumes one worker at a time, when the network has answered it:
  \<open>Fetched i net\<close> resumes worker \<open>i\<close> with the answers to its candle requests,
  \<open>Posted i post\<close> resumes it with the answers to its Telegram requests, and
  \<open>Late j post\<close> does the same for orphan \<open>j\<close>. The list of these inputs is the
  interleaving of the workers, chosen by the network. The semaphore of 50 only delays
  when a candle request starts; it excludes no order of these inputs.
\<close>

datatype input =
    Fetched nat "nat \<Rightarrow> kline_reply"
  | Posted nat "nat \<Rightarrow> unit reply"
  | Late nat "nat \<Rightarrow> unit reply"

definition settle :: "nat \<Rightarrow> task \<Rightarrow> cycle \<Rightarrow> cycle" where
  "settle i t c =
     c\<lparr>tasks := (tasks c)[i := t],
       raised := (case t of Raised e \<Rightarrow> Some e | _ \<Rightarrow> raised c)\<rparr>"

text \<open>
  An orphan finishes lines 160 to 163 on the store as it is now. Its \<^verbatim>\<open>alerts\<close> list is
  the one of its own cycle, and nobody awaits its exception.
\<close>

definition resume_orphan :: "nat \<Rightarrow> (nat \<Rightarrow> unit reply) \<Rightarrow> cycle \<Rightarrow> cycle" where
  "resume_orphan j post c =
     (if j < length (orphans c) then
        (case orphans c ! j of
           Sending symb k pct \<Rightarrow>
             (case worker_deliver (store c) symb k pct post of
                (t, db', evs, al) \<Rightarrow>
                  c\<lparr>store := db', events := events c @ evs,
                    orphans := (orphans c)[j := t]\<rparr>)
         | _ \<Rightarrow> c)
      else c)"

definition step :: "config \<Rightarrow> (pyfloat \<Rightarrow> string) \<Rightarrow> input \<Rightarrow> cycle \<Rightarrow> cycle" where
  "step cfg strftime_gmtime inp c =
     (case inp of
        Fetched i net \<Rightarrow>
          if i < length (tasks c) then
            (case tasks c ! i of
               Fetching symb \<Rightarrow>
                 (case worker_evaluate cfg strftime_gmtime (store c) symb net of
                    (t, evs) \<Rightarrow> settle i t (c\<lparr>events := events c @ evs\<rparr>))
             | _ \<Rightarrow> c)
          else c
      | Posted i post \<Rightarrow>
          if i < length (tasks c) then
            (case tasks c ! i of
               Sending symb k pct \<Rightarrow>
                 (case worker_deliver (store c) symb k pct post of
                    (t, db', evs, al) \<Rightarrow>
                      settle i t (c\<lparr>store := db', events := events c @ evs,
                                     alerts := alerts c @ al\<rparr>))
             | _ \<Rightarrow> c)
          else c
      | Late j post \<Rightarrow> resume_orphan j post c)"

text \<open>
  \<^verbatim>\<open>await asyncio.gather(...)\<close> without \<^verbatim>\<open>return_exceptions\<close>: the first exception of a
  worker is raised in \<^verbatim>\<open>check_once\<close> at once, which leaves \<^verbatim>\<open>session_ctx\<close> and ends; the
  other workers are not cancelled. From then on a worker that waits for its candle gets
  no answer, because the session of the cycle is closed; a worker inside
  \<^verbatim>\<open>send_telegram\<close> goes on as before, except that its exception reaches nobody.
\<close>

definition late :: "config \<Rightarrow> (pyfloat \<Rightarrow> string) \<Rightarrow> input \<Rightarrow> cycle \<Rightarrow> cycle" where
  "late cfg strftime_gmtime inp c =
     (case inp of
        Fetched i net \<Rightarrow> c
      | _ \<Rightarrow> (step cfg strftime_gmtime inp c)\<lparr>raised := raised c\<rparr>)"

fun run :: "config \<Rightarrow> (pyfloat \<Rightarrow> string) \<Rightarrow> input list \<Rightarrow> cycle \<Rightarrow> cycle" where
  "run cfg strftime_gmtime [] c = c"
| "run cfg strftime_gmtime (inp # rest) c =
     (if raised c \<noteq> None
      then run cfg strftime_gmtime rest (late cfg strftime_gmtime inp c)
      else run cfg strftime_gmtime rest (step cfg strftime_gmtime inp c))"

text \<open>
  \<^verbatim>\<open>check_once\<close>, started on a store while the workers \<open>left\<close> of earlier cycles are
  still in flight. When the symbol request raises there are no workers of this cycle,
  and the inputs can only resume those of earlier ones.
\<close>

definition check_once ::
  "config \<Rightarrow> (pyfloat \<Rightarrow> string) \<Rightarrow> database \<Rightarrow> task list \<Rightarrow> symbol_info list option reply
     \<Rightarrow> input list \<Rightarrow> cycle"
where
  "check_once cfg strftime_gmtime db left universe sched =
     (let db1 = db_init db in
      case get_symbols cfg universe of
        Inl e \<Rightarrow>
          run cfg strftime_gmtime sched
            \<lparr>store = db1, tasks = [], events = [], alerts = [], raised = Some e,
             orphans = left\<rparr>
      | Inr symbols \<Rightarrow>
          run cfg strftime_gmtime sched
            \<lparr>store = db1, tasks = map Fetching symbols, events = [], alerts = [],
             raised = None, orphans = left\<rparr>)"

text \<open>
  How a run of \<^verbatim>\<open>check_once\<close> ends: it raises, it returns \<^verbatim>\<open>alerts\<close> when every worker
  has returned, or it is still waiting for the network (the inputs given were not enough).
\<close>

datatype cycle_result = Returned "(string \<times> pyfloat) list" | Raising exn | Pending

definition cycle_result :: "cycle \<Rightarrow> cycle_result" where
  "cycle_result c =
     (case raised c of
        Some e \<Rightarrow> Raising e
      | None \<Rightarrow> if list_all (\<lambda>t. t = Finished) (tasks c) then Returned (alerts c) else Pending)"

text \<open>
  The workers that are still inside \<^verbatim>\<open>send_telegram\<close> when the inputs of the cycle are
  used up: they are in flight during the cycles that follow.
\<close>

fun is_Sending :: "task \<Rightarrow> bool" where
  "is_Sending (Sending symb k pct) = True"
| "is_Sending _ = False"

definition leftover :: "cycle \<Rightarrow> task list" where
  "leftover c = filter is_Sending (orphans c @ tasks c)"

section \<open>Scheduler loop\<close>

text \<open>
  What the network does during one iteration of \<^verbatim>\<open>main_loop\<close>, and the value of
  \<^verbatim>\<open>time.time() - start\<close> after the cycle.
\<close>

record cycle_input =
  universe :: "symbol_info list option reply"
  schedule :: "input list"
  elapsed :: pyfloat

datatype printed = SentAlerts "(string \<times> pyfloat) list" | NoNewAlerts | ErrorInCycle exn

datatype loop_status = Running | Waiting | Exited exn

text \<open>
  The state of the process: the store, every notifier event so far, the lines printed
  by the loop, the arguments of its \<^verbatim>\<open>asyncio.sleep\<close> calls, whether the loop is
  still running (\<open>Waiting\<close>: inside a cycle that has not ended; \<open>Exited\<close>: an exception
  has left \<^verbatim>\<open>main_loop\<close>), and the workers of earlier cycles that are still in flight.
\<close>

record loop_state =
  db_file :: database
  history :: "event list"
  prints :: "printed list"
  naps :: "pyfloat list"
  loop_status :: loop_status
  in_flight :: "task list"

text \<open>\<^verbatim>\<open>max(0, POLL_SECONDS - elapsed)\<close>\<close>

definition nap :: "config \<Rightarrow> pyfloat \<Rightarrow> pyfloat" where
  "nap cfg el = max 0 (fsub (of_int (POLL_SECONDS cfg)) el)"

text \<open>
  The iterations of \<^verbatim>\<open>while True\<close>, one for each element of the list: the list is as long
  as one cares to watch the loop, which has no exit of its own.
\<close>

fun main_loop ::
  "config \<Rightarrow> (pyfloat \<Rightarrow> string) \<Rightarrow> cycle_input list \<Rightarrow> loop_state \<Rightarrow> loop_state"
where
  "main_loop cfg strftime_gmtime [] s = s"
| "main_loop cfg strftime_gmtime (ci # rest) s =
     (if loop_status s \<noteq> Running then s
      else
        let c = check_once cfg strftime_gmtime (db_file s) (in_flight s) (universe ci)
                  (schedule ci);
            s1 = s\<lparr>db_file := store c, history := history s @ events c,
                   in_flight := leftover c\<rparr>
        in case cycle_result c of
             Pending \<Rightarrow> s1\<lparr>loop_status := Waiting\<rparr>
           | Returned al \<Rightarrow>
               main_loop cfg strftime_gmtime rest
                 (s1\<lparr>prints := prints s @ [if al = [] then NoNewAlerts else SentAlerts al],
                     naps := naps s @ [nap cfg (elapsed ci)]\<rparr>)
           | Raising e \<Rightarrow>
               if is_Exception e then
                 main_loop cfg strftime_gmtime rest
                   (s1\<lparr>prints := prints s @ [ErrorInCycle e],
                       naps := naps s @ [nap cfg (elapsed ci)]\<rparr>)
               else s1\<lparr>loop_status := Exited e\<rparr>)"

section \<open>Observations\<close>


text \<open>
  The answers on which the candle request is repeated after a pause: a rate-limit or
  block status, or a transport error of aiohttp.
\<close>

fun retry_signal :: "kline_reply \<Rightarrow> bool" where
  "retry_signal (Raises e) = is_ClientError e"
| "retry_signal (Response st arr) = (st \<in> {418, 429, 451})"

text \<open>The pauses \<open>1 + attempt * 2\<close> for \<open>n\<close> attempts from attempt \<open>a\<close> on.\<close>

definition backoff :: "nat \<Rightarrow> nat \<Rightarrow> nat list" where
  "backoff a n = map (\<lambda>i. 1 + i * 2) [a ..< a + n]"

text \<open>
  What one entry of the exchange information contributes to the list of symbols: its
  symbol, when it is a non-empty string and the entry is a trading perpetual contract in
  the configured quote asset that is not excluded.
\<close>

definition listed :: "config \<Rightarrow> symbol_info \<Rightarrow> string list" where
  "listed cfg s =
     (case symbol s of
        None \<Rightarrow> []
      | Some symb \<Rightarrow>
          if status s = Some ''TRADING'' \<and> contractType s = Some ''PERPETUAL''
             \<and> quoteAsset s = Some (QUOTE cfg) \<and> symb \<notin> EXCLUDED cfg \<and> symb \<noteq> []
          then [symb] else [])"









section \<open>Example inputs\<close>

definition example_config :: config where
  "example_config =
     \<lparr>INTERVAL = ''15m'', THRESHOLD = 6, POLL_SECONDS = 60, QUOTE = ''USDT'', EXCLUDED = {},
      TELEGRAM_BOT_TOKEN = ''token'', TELEGRAM_CHAT_ID = ''42'', DB_PATH = ''alerts.db''\<rparr>"

definition example_time :: "pyfloat \<Rightarrow> string" where
  "example_time t = ''1970-01-01 00:00:01''"

definition perpetual :: "string \<Rightarrow> symbol_info" where
  "perpetual symb =
     \<lparr>status = Some ''TRADING'', contractType = Some ''PERPETUAL'',
      quoteAsset = Some ''USDT'', symbol = Some symb\<rparr>"

definition abc_kline :: kline where
  "abc_kline =
     \<lparr>k_open_time = 1000, k_open = 100, k_high = 101, k_low = 93, k_close = 94,
      k_close_time = 900999\<rparr>"

definition xyz_kline :: kline where
  "xyz_kline =
     \<lparr>k_open_time = 2000, k_open = 50, k_high = 52, k_low = 49, k_close = 51,
      k_close_time = 901999\<rparr>"

definition zero_kline :: kline where
  "zero_kline =
     \<lparr>k_open_time = 3000, k_open = 0, k_high = 1, k_low = 0, k_close = 1,
      k_close_time = 902999\<rparr>"

text \<open>A network that answers every candle request with one candle, one whose candle
  requests run into the timeout of the session, and one that accepts or refuses every
  message.\<close>

definition candle :: "kline \<Rightarrow> nat \<Rightarrow> kline_reply" where
  "candle k attempt = Response 200 [Inr k]"

definition timeout :: "nat \<Rightarrow> kline_reply" where
  "timeout attempt = Raises TimeoutError"

definition accepted :: "nat \<Rightarrow> unit reply" where
  "accepted attempt = Response 200 ()"

definition refused :: "nat \<Rightarrow> unit reply" where
  "refused attempt = Response 503 ()"

definition abc_message :: string where
  "abc_message =
     ''<b>ABCUSDT</b> '' @ arrow_down @ '' DOWN'' @ [CHR 0x0A]
     @ ''Interval: 15m | Move: <b>6.00%</b>'' @ [CHR 0x0A]
     @ ''Open: 100.000000 | Close: 94.000000'' @ [CHR 0x0A]
     @ ''High: 101.000000 | Low: 93.000000'' @ [CHR 0x0A]
     @ ''Open Time: 1970-01-01 00:00:01 UTC''"

text \<open>A cycle in which the only symbol is ABCUSDT, its candle arrives and the message
  is accepted; a cycle whose symbol request raises; the process at its start, and with
  the key of that candle recorded.\<close>

definition abc_cycle :: cycle_input where
  "abc_cycle =
     \<lparr>universe = Response 200 (Some [perpetual ''ABCUSDT'']),
      schedule = [Fetched 0 (candle abc_kline), Posted 0 accepted],
      elapsed = 2\<rparr>"


definition fresh_state :: loop_state where
  "fresh_state =
     \<lparr>db_file = None, history = [], prints = [], naps = [], loop_status = Running,
      in_flight = []\<rparr>"


section \<open>Properties of the dedup store\<close>

lemma mark_alerted_present:
  "(symb, t) \<in> set (rows_of db) \<Longrightarrow> mark_alerted db symb t = Inr db"
  by (cases db) (simp_all add: mark_alerted_def rows_of_def)

lemma mark_alerted_records:
  "mark_alerted db symb t = Inr db1 \<Longrightarrow> (symb, t) \<in> set (rows_of db1)"
  by (cases db) (auto simp: mark_alerted_def rows_of_def)

lemma mark_alerted_keeps:
  "mark_alerted db symb t = Inr db1 \<Longrightarrow> set (rows_of db) \<subseteq> set (rows_of db1)"
  by (cases db) (auto simp: mark_alerted_def rows_of_def)

lemma mark_alerted_distinct:
  "mark_alerted db symb t = Inr db1 \<Longrightarrow> distinct (rows_of db) \<Longrightarrow> distinct (rows_of db1)"
  by (cases db) (auto simp: mark_alerted_def rows_of_def)

text \<open>
  C4. \<^verbatim>\<open>mark_alerted\<close> is idempotent. For every key and every state of the store, two
  calls in a row end as one call does (the same store, or the same error when the table
  was never created). When the key is present already the call returns and changes
  nothing. When the table exists the call returns, the key is present afterwards, and
  rows that were pairwise different stay so: no duplicate row is created.
\<close>

theorem mark_alerted_idempotent:
  "(case mark_alerted db symb t of Inl e \<Rightarrow> Inl e | Inr db1 \<Rightarrow> mark_alerted db1 symb t)
     = mark_alerted db symb t
   \<and> ((symb, t) \<in> set (rows_of db) \<longrightarrow> mark_alerted db symb t = Inr db)
   \<and> (db \<noteq> None \<longrightarrow>
        (\<exists>db1. mark_alerted db symb t = Inr db1 \<and> (symb, t) \<in> set (rows_of db1)
               \<and> (distinct (rows_of db) \<longrightarrow> distinct (rows_of db1))))"
proof (intro conjI impI)
  show "(case mark_alerted db symb t of Inl e \<Rightarrow> Inl e | Inr db1 \<Rightarrow> mark_alerted db1 symb t)
          = mark_alerted db symb t"
  proof (cases "mark_alerted db symb t")
    case (Inl e)
    then show ?thesis by simp
  next
    case (Inr db1)
    from mark_alerted_present [OF mark_alerted_records [OF Inr]] Inr
    show ?thesis by simp
  qed
next
  assume "(symb, t) \<in> set (rows_of db)"
  then show "mark_alerted db symb t = Inr db" by (rule mark_alerted_present)
next
  assume "db \<noteq> None"
  then obtain rows where db: "db = Some rows" by auto
  then obtain db1 where m: "mark_alerted db symb t = Inr db1"
    by (simp add: mark_alerted_def)
  from m mark_alerted_records [OF m] mark_alerted_distinct [OF m]
  show "\<exists>db1. mark_alerted db symb t = Inr db1 \<and> (symb, t) \<in> set (rows_of db1)
              \<and> (distinct (rows_of db) \<longrightarrow> distinct (rows_of db1))"
    by blast
qed

theorem mark_alerted_idempotent_witness:
  "(''BTCUSDT'', 1000) \<in> set (rows_of (Some [(''BTCUSDT'', 1000)]))
   \<and> Some [(''BTCUSDT'', 1000 :: int)] \<noteq> None
   \<and> distinct (rows_of (Some [(''BTCUSDT'', 1000 :: int)]))
   \<and> mark_alerted (Some [(''BTCUSDT'', 1000)]) ''BTCUSDT'' 1000
       = Inr (Some [(''BTCUSDT'', 1000)])"
  using mark_alerted_idempotent
    [where db = "Some [(''BTCUSDT'', 1000)]" and symb = "''BTCUSDT''" and t = 1000]
  by (simp add: rows_of_def)

section \<open>Properties of the configuration\<close>

lemma fl_6: "fl 6 = 6"
  by code_simp

lemma digit_val_6: "digit_val (CHR ''6'') = Some 6"
  by code_simp

lemma digit_val_0: "digit_val (CHR ''0'') = Some 0"
  by code_simp

lemma py_float_6: "py_float other ''6'' = Inr 6"
  by (simp add: py_float_def digit_val_6 fl_6)

lemma py_int_60: "py_int other ''60'' = Inr 60"
  by (simp add: py_int_def digit_val_6 digit_val_0)

text \<open>
  C10. Whenever the module-level code yields a configuration: a setting among
  \<^verbatim>\<open>INTERVAL\<close>, \<^verbatim>\<open>THRESHOLD\<close>, \<^verbatim>\<open>POLL_SECONDS\<close>, \<^verbatim>\<open>QUOTE\<close> and \<^verbatim>\<open>EXCLUDED\<close> that the process
  environment does not define has its built-in default, whatever the \<^verbatim>\<open>.env\<close> file says,
  because it is read before \<^verbatim>\<open>load_dotenv()\<close>; \<^verbatim>\<open>TELEGRAM_BOT_TOKEN\<close>, \<^verbatim>\<open>TELEGRAM_CHAT_ID\<close>
  and \<^verbatim>\<open>DB_PATH\<close>, read afterwards, then have the value of the \<^verbatim>\<open>.env\<close> file.
\<close>

theorem defaults_ignore_dotenv:
  assumes "module_init float_other int_other env dotenv = Inr cfg"
  shows "(env ''INTERVAL'' = None \<longrightarrow> INTERVAL cfg = ''15m'')
       \<and> (env ''THRESHOLD'' = None \<longrightarrow> THRESHOLD cfg = 6)
       \<and> (env ''POLL_SECONDS'' = None \<longrightarrow> POLL_SECONDS cfg = 60)
       \<and> (env ''QUOTE'' = None \<longrightarrow> QUOTE cfg = ''USDT'')
       \<and> (env ''EXCLUDED'' = None \<longrightarrow> EXCLUDED cfg = {})
       \<and> (env ''TELEGRAM_BOT_TOKEN'' = None \<longrightarrow>
            TELEGRAM_BOT_TOKEN cfg = strip (getenv dotenv ''TELEGRAM_BOT_TOKEN'' []))
       \<and> (env ''TELEGRAM_CHAT_ID'' = None \<longrightarrow>
            TELEGRAM_CHAT_ID cfg = strip (getenv dotenv ''TELEGRAM_CHAT_ID'' []))
       \<and> (env ''DB_PATH'' = None \<longrightarrow> DB_PATH cfg = getenv dotenv ''DB_PATH'' ''alerts.db'')"
proof -
  obtain th where th: "py_float float_other (getenv env ''THRESHOLD'' ''6'') = Inr th"
    using assms by (cases "py_float float_other (getenv env ''THRESHOLD'' ''6'')")
                   (simp_all add: module_init_def)
  obtain ps where ps: "py_int int_other (getenv env ''POLL_SECONDS'' ''60'') = Inr ps"
    using assms th by (cases "py_int int_other (getenv env ''POLL_SECONDS'' ''60'')")
                   (simp_all add: module_init_def)
  let ?env' = "load_dotenv dotenv env"
  from assms th ps have cfg:
    "cfg = \<lparr>INTERVAL = getenv env ''INTERVAL'' ''15m'', THRESHOLD = th,
            POLL_SECONDS = ps, QUOTE = getenv env ''QUOTE'' ''USDT'',
            EXCLUDED = (if truthy (env ''EXCLUDED'')
               then set (split (CHR '','') (upper (getenv env ''EXCLUDED'' [])))
               else {}),
            TELEGRAM_BOT_TOKEN = strip (getenv ?env' ''TELEGRAM_BOT_TOKEN'' []),
            TELEGRAM_CHAT_ID = strip (getenv ?env' ''TELEGRAM_CHAT_ID'' []),
            DB_PATH = getenv ?env' ''DB_PATH'' ''alerts.db''\<rparr>"
    by (simp add: module_init_def Let_def split: if_splits)
  have 1: "env ''THRESHOLD'' = None \<longrightarrow> th = 6"
    using th by (auto simp: getenv_def py_float_6)
  have 2: "env ''POLL_SECONDS'' = None \<longrightarrow> ps = 60"
    using ps by (auto simp: getenv_def py_int_60)
  have 3: "env k = None \<longrightarrow> getenv ?env' k d = getenv dotenv k d" for k d
    by (simp add: getenv_def load_dotenv_def)
  show ?thesis
    using 1 2 3 by (simp add: cfg getenv_def truthy_def)
qed

theorem defaults_ignore_dotenv_witness:
  "\<exists>cfg. module_init (\<lambda>s. Inl ValueError) (\<lambda>s. Inl ValueError) Map.empty
       [''INTERVAL'' \<mapsto> ''1h'', ''THRESHOLD'' \<mapsto> ''3'', ''POLL_SECONDS'' \<mapsto> ''10'',
        ''QUOTE'' \<mapsto> ''BUSD'', ''EXCLUDED'' \<mapsto> ''BTCBUSD'',
        ''TELEGRAM_BOT_TOKEN'' \<mapsto> ''token'', ''TELEGRAM_CHAT_ID'' \<mapsto> ''42'',
        ''DB_PATH'' \<mapsto> ''my.db''] = Inr cfg
     \<and> INTERVAL cfg = ''15m'' \<and> THRESHOLD cfg = 6 \<and> POLL_SECONDS cfg = 60
     \<and> QUOTE cfg = ''USDT'' \<and> EXCLUDED cfg = {}
     \<and> TELEGRAM_BOT_TOKEN cfg = ''token'' \<and> TELEGRAM_CHAT_ID cfg = ''42''
     \<and> DB_PATH cfg = ''my.db''"
proof -
  let ?dotenv = "[''INTERVAL'' \<mapsto> ''1h'', ''THRESHOLD'' \<mapsto> ''3'', ''POLL_SECONDS'' \<mapsto> ''10'',
        ''QUOTE'' \<mapsto> ''BUSD'', ''EXCLUDED'' \<mapsto> ''BTCBUSD'',
        ''TELEGRAM_BOT_TOKEN'' \<mapsto> ''token'', ''TELEGRAM_CHAT_ID'' \<mapsto> ''42'',
        ''DB_PATH'' \<mapsto> ''my.db'']"
  have s1: "strip ''token'' = ''token''" by code_simp
  have s2: "strip ''42'' = ''42''" by code_simp
  obtain cfg where h: "module_init (\<lambda>s. Inl ValueError) (\<lambda>s. Inl ValueError) Map.empty ?dotenv
      = Inr cfg"
    by (simp add: module_init_def getenv_def py_float_6 py_int_60 truthy_def load_dotenv_def
                  s1 s2)
  from defaults_ignore_dotenv [OF h] h show ?thesis
    by (simp add: getenv_def s1 s2)
qed

section \<open>Properties of the market data client\<close>

lemma get_symbols_loop_listed:
  "get_symbols_loop cfg xs acc = acc @ concat (map (listed cfg) xs)"
  by (induction xs arbitrary: acc) (auto simp: listed_def split: option.splits)

lemma in_listed:
  "symb \<in> set (listed cfg s) \<longleftrightarrow>
     symb \<noteq> [] \<and> status s = Some ''TRADING'' \<and> contractType s = Some ''PERPETUAL''
     \<and> quoteAsset s = Some (QUOTE cfg) \<and> symbol s = Some symb \<and> symb \<notin> EXCLUDED cfg"
  by (cases "symbol s") (auto simp: listed_def)

text \<open>
  C7, as stated, fails: an entry whose symbol is the empty string passes the four
  filters (it trades, is perpetual, is quoted in \<^verbatim>\<open>QUOTE\<close>, and is not excluded), and
  \<^verbatim>\<open>get_symbols\<close> leaves it out, by the test \<^verbatim>\<open>not sym\<close> of line 82.
\<close>

theorem get_symbols_empty_symbol:
  "get_symbols example_config
     (Response 200 (Some [\<lparr>status = Some ''TRADING'', contractType = Some ''PERPETUAL'',
                           quoteAsset = Some ''USDT'', symbol = Some []\<rparr>])) = Inr []
   \<and> QUOTE example_config = ''USDT'' \<and> [] \<notin> EXCLUDED example_config"
  by (simp add: get_symbols_def raise_for_status_def example_config_def)

text \<open>
  C7, amended. On a response with a status below 400, \<^verbatim>\<open>get_symbols\<close> returns, in the
  order of the response, exactly the non-empty symbols of the entries that satisfy the
  four filters: status \<^verbatim>\<open>TRADING\<close>, contract type \<^verbatim>\<open>PERPETUAL\<close>, quote asset \<^verbatim>\<open>QUOTE\<close>, and
  symbol not in \<^verbatim>\<open>EXCLUDED\<close>. Every other entry is left out.
\<close>

theorem get_symbols_filters:
  "st < 400 \<longrightarrow>
     get_symbols cfg (Response st (Some xs)) = Inr (concat (map (listed cfg) xs))
     \<and> (\<forall>symb. symb \<in> set (concat (map (listed cfg) xs)) \<longleftrightarrow>
           symb \<noteq> [] \<and>
           (\<exists>s\<in>set xs. status s = Some ''TRADING'' \<and> contractType s = Some ''PERPETUAL''
               \<and> quoteAsset s = Some (QUOTE cfg) \<and> symbol s = Some symb
               \<and> symb \<notin> EXCLUDED cfg))"
proof (intro impI conjI allI)
  assume "st < 400"
  then show "get_symbols cfg (Response st (Some xs)) = Inr (concat (map (listed cfg) xs))"
    by (simp add: get_symbols_def raise_for_status_def get_symbols_loop_listed)
next
  fix symb
  show "symb \<in> set (concat (map (listed cfg) xs)) \<longleftrightarrow>
           symb \<noteq> [] \<and>
           (\<exists>s\<in>set xs. status s = Some ''TRADING'' \<and> contractType s = Some ''PERPETUAL''
               \<and> quoteAsset s = Some (QUOTE cfg) \<and> symbol s = Some symb
               \<and> symb \<notin> EXCLUDED cfg)"
    by (auto simp: in_listed)
qed

theorem get_symbols_filters_witness:
  "(200::nat) < 400
   \<and> get_symbols example_config
        (Response 200 (Some [perpetual ''ABCUSDT'', perpetual [],
                             (perpetual ''OLDUSDT'')\<lparr>status := Some ''SETTLING''\<rparr>]))
      = Inr [''ABCUSDT'']"
  using get_symbols_filters
    [where st = 200 and cfg = example_config
       and xs = "[perpetual ''ABCUSDT'', perpetual [],
                  (perpetual ''OLDUSDT'')\<lparr>status := Some ''SETTLING''\<rparr>]"]
  by (simp add: listed_def perpetual_def example_config_def)

lemma backoff_Suc: "backoff a (Suc n) = (1 + a * 2) # backoff (Suc a) n"
  by (simp add: backoff_def upt_rec)

lemma backoff_0: "k \<le> 3 \<Longrightarrow> backoff 0 k = take k [1, 3, 5]"
proof -
  assume "k \<le> 3"
  then have "k = 0 \<or> k = 1 \<or> k = 2 \<or> k = 3" by arith
  then show ?thesis by (auto simp: backoff_def upt_rec numeral_2_eq_2 numeral_3_eq_3)
qed

lemma kline_loop_attempts: "attempts (kline_loop net n a) \<le> n"
  by (induction n arbitrary: a)
     (auto simp: slept_def returned_def raised_exn_def
           split: reply.splits sum.splits list.splits)

lemma kline_loop_sleeps:
  "\<exists>m\<le>n. sleeps (kline_loop net n a) = backoff a m"
proof (induction n arbitrary: a)
  case 0
  then show ?case by (simp add: backoff_def)
next
  case (Suc n)
  from Suc.IH [of "Suc a"] obtain m where m: "m \<le> n"
    "sleeps (kline_loop net n (Suc a)) = backoff (Suc a) m" by blast
  have again: "\<exists>m\<le>Suc n. sleeps (slept (1 + a * 2) (kline_loop net n (Suc a))) = backoff a m"
    using m by (intro exI [of _ "Suc m"]) (simp add: slept_def backoff_Suc)
  have stop: "\<exists>m\<le>Suc n. ([]::nat list) = backoff a m"
    by (intro exI [of _ 0]) (simp add: backoff_def)
  show ?case
    using again stop
    by (simp add: returned_def raised_exn_def split: reply.splits sum.splits list.splits)
qed

lemma kline_loop_exhausted:
  "(\<forall>i<n. retry_signal (net (a + i))) \<Longrightarrow>
     kline_loop net n a = \<lparr>result = Inr None, sleeps = backoff a n, attempts = n\<rparr>"
proof (induction n arbitrary: a)
  case 0
  then show ?case by (simp add: backoff_def)
next
  case (Suc n)
  have "\<forall>i<n. retry_signal (net (Suc a + i))"
    using Suc.prems by (metis Suc_less_eq add_Suc_shift)
  from Suc.IH [OF this] have ih:
    "kline_loop net n (Suc a) = \<lparr>result = Inr None, sleeps = backoff (Suc a) n, attempts = n\<rparr>" .
  from Suc.prems have "retry_signal (net a)" by (metis add.right_neutral zero_less_Suc)
  then show ?case
    by (cases "net a") (simp_all add: ih slept_def backoff_Suc)
qed

lemma kline_loop_empty:
  assumes "\<forall>i<m. retry_signal (net (a + i))" and "m < n"
    and "net (a + m) = Response st []" and "st \<notin> {418, 429, 451}" and "st < 400"
  shows "kline_loop net n a = \<lparr>result = Inr None, sleeps = backoff a m, attempts = Suc m\<rparr>"
  using assms
proof (induction m arbitrary: a n)
  case 0
  then obtain n' where "n = Suc n'" by (cases n) auto
  with 0 show ?case by (simp add: backoff_def returned_def raise_for_status_def)
next
  case (Suc m)
  then obtain n' where n: "n = Suc n'" "m < n'" by (cases n) auto
  have "\<forall>i<m. retry_signal (net (Suc a + i))"
    using Suc.prems(1) by (metis Suc_less_eq add_Suc_shift)
  moreover have "net (Suc a + m) = Response st []" using Suc.prems(3) by simp
  ultimately have ih: "kline_loop net n' (Suc a)
      = \<lparr>result = Inr None, sleeps = backoff (Suc a) m, attempts = Suc m\<rparr>"
    using Suc.IH [of "Suc a" n'] n Suc.prems(4,5) by blast
  from Suc.prems(1) have "retry_signal (net a)" by (metis add.right_neutral zero_less_Suc)
  then show ?case
    by (cases "net a") (simp_all add: n ih slept_def backoff_Suc)
qed

text \<open>
  The retries of \<^verbatim>\<open>get_latest_15m_kline\<close>. It makes at most three requests, and its
  pauses are the first ones of 1, 3 and 5 seconds. When each of the three requests meets
  a rate-limit or block status (418, 429, 451) or a transport error of aiohttp, it pauses
  1, 3 and 5 seconds, one pause after each request, and returns \<^verbatim>\<open>None\<close>: it does not
  raise. When, after such answers, a request is answered with an empty list, it returns
  \<^verbatim>\<open>None\<close> at once. In the first case the worker of that symbol returns quietly, so
  the cycle goes on with the other symbols.
\<close>

theorem kline_retry_policy:
  "attempts (get_latest_15m_kline net) \<le> 3
   \<and> (\<exists>m\<le>3. sleeps (get_latest_15m_kline net) = take m [1, 3, 5])
   \<and> ((\<forall>i<3. retry_signal (net i)) \<longrightarrow>
        get_latest_15m_kline net = \<lparr>result = Inr None, sleeps = [1, 3, 5], attempts = 3\<rparr>)
   \<and> ((\<forall>i<m. retry_signal (net i)) \<and> m < 3 \<and> net m = Response st []
          \<and> st \<notin> {418, 429, 451} \<and> st < 400 \<longrightarrow>
        get_latest_15m_kline net
          = \<lparr>result = Inr None, sleeps = take m [1, 3, 5], attempts = Suc m\<rparr>)
   \<and> ((\<forall>i<3. retry_signal (net i)) \<longrightarrow>
        worker_evaluate cfg tf d symb net = (Finished, []))"
proof -
  have 1: "attempts (get_latest_15m_kline net) \<le> 3"
    by (simp add: get_latest_15m_kline_def kline_loop_attempts)
  have 2: "\<exists>m\<le>3. sleeps (get_latest_15m_kline net) = take m [1, 3, 5]"
    using kline_loop_sleeps [of 3 net 0] backoff_0 by (auto simp: get_latest_15m_kline_def)
  have 3: "get_latest_15m_kline net = \<lparr>result = Inr None, sleeps = [1, 3, 5], attempts = 3\<rparr>"
    if "\<forall>i<3. retry_signal (net i)"
    using kline_loop_exhausted [of 3 net 0] that backoff_0 [of 3]
    by (simp add: get_latest_15m_kline_def)
  have 4: "get_latest_15m_kline net
          = \<lparr>result = Inr None, sleeps = take m [1, 3, 5], attempts = Suc m\<rparr>"
    if "\<forall>i<m. retry_signal (net i)" "m < 3" "net m = Response st []"
       "st \<notin> {418, 429, 451}" "st < 400"
    using kline_loop_empty [of m net 0 3 st] that backoff_0 [of m]
    by (simp add: get_latest_15m_kline_def)
  have 5: "worker_evaluate cfg tf d symb net = (Finished, [])"
    if "\<forall>i<3. retry_signal (net i)"
    using 3 [OF that] by (simp add: worker_evaluate_def)
  from 1 2 3 4 5 show ?thesis by blast
qed

theorem kline_retry_policy_witness:
  "get_latest_15m_kline (\<lambda>i. Response 429 [])
     = \<lparr>result = Inr None, sleeps = [1, 3, 5], attempts = 3\<rparr>
   \<and> get_latest_15m_kline (\<lambda>i. if i = 0 then Raises ClientError else Response 200 [])
     = \<lparr>result = Inr None, sleeps = [1], attempts = 2\<rparr>"
  using kline_retry_policy [where net = "\<lambda>i. Response 429 []"]
        kline_retry_policy [where net = "\<lambda>i. if i = 0 then Raises ClientError else Response 200 []"
                              and m = 1 and st = 200]
  by simp

section \<open>The example inputs evaluated\<close>

lemma abc_pct: "pct_move abc_kline = Inr (- 6)"
  by code_simp

lemma xyz_pct: "pct_move xyz_kline = Inr 2"
  by code_simp

lemma zero_pct: "pct_move zero_kline = Inl ZeroDivisionError"
  by (simp add: pct_move_def fdiv_def zero_kline_def)

lemma abc_text: "make_alert_text example_config example_time ''ABCUSDT'' abc_kline (- 6) = abc_message"
  by code_simp

lemma nap_2: "nap example_config 2 = 58"
  by code_simp


lemma abc_open_time: "k_open_time abc_kline = 1000"
  by (simp add: abc_kline_def)

lemma example_threshold: "THRESHOLD example_config = 6"
  by (simp add: example_config_def)

lemma fetch_candle: "result (get_latest_15m_kline (candle k)) = Inr (Some k)"
  by (simp add: get_latest_15m_kline_def candle_def numeral_3_eq_3 raise_for_status_def returned_def)

lemma send_accepted: "result (send_telegram accepted) = Inr True"
  by (simp add: send_telegram_def accepted_def numeral_3_eq_3 raise_for_status_def returned_def)

lemma send_refused: "result (send_telegram refused) = Inr False"
  by (simp add: send_telegram_def refused_def numeral_3_eq_3 slept_def)

lemma abc_universe:
  "get_symbols example_config (Response 200 (Some [perpetual ''ABCUSDT''])) = Inr [''ABCUSDT'']"
  by (simp add: get_symbols_def raise_for_status_def perpetual_def example_config_def)

lemma abc_evaluate_fresh:
  "worker_evaluate example_config example_time (Some []) ''ABCUSDT'' (candle abc_kline)
     = (Sending ''ABCUSDT'' abc_kline (- 6), [Attempt ''ABCUSDT'' 1000 abc_message])"
  by (simp add: worker_evaluate_def fetch_candle abc_pct example_threshold already_alerted_def
                abc_open_time abc_text)

lemma abc_evaluate_recorded:
  "worker_evaluate example_config example_time (Some [(''ABCUSDT'', 1000)]) ''ABCUSDT''
     (candle abc_kline) = (Finished, [])"
  by (simp add: worker_evaluate_def fetch_candle abc_pct example_threshold already_alerted_def
                abc_open_time)

lemma abc_deliver:
  "worker_deliver (Some []) ''ABCUSDT'' abc_kline (- 6) accepted
     = (Finished, Some [(''ABCUSDT'', 1000)], [Delivered ''ABCUSDT'' 1000], [(''ABCUSDT'', - 6)])"
  by (simp add: worker_deliver_def send_accepted mark_alerted_def abc_open_time)

lemma abc_cycle_fresh:
  "check_once example_config example_time None [] (universe abc_cycle) (schedule abc_cycle)
     = \<lparr>store = Some [(''ABCUSDT'', 1000)], tasks = [Finished],
        events = [Attempt ''ABCUSDT'' 1000 abc_message, Delivered ''ABCUSDT'' 1000],
        alerts = [(''ABCUSDT'', - 6)], raised = None, orphans = []\<rparr>"
  by (simp add: check_once_def abc_cycle_def abc_universe db_init_def step_def settle_def
                abc_evaluate_fresh abc_deliver)


lemma abc_cycle_recorded:
  "check_once example_config example_time (Some [(''ABCUSDT'', 1000)]) [] (universe abc_cycle)
     (schedule abc_cycle)
     = \<lparr>store = Some [(''ABCUSDT'', 1000)], tasks = [Finished], events = [], alerts = [],
        raised = None, orphans = []\<rparr>"
  by (simp add: check_once_def abc_cycle_def abc_universe db_init_def step_def settle_def
                abc_evaluate_recorded)


section \<open>Properties of the worker\<close>

lemma send_loop_False_attempts:
  "result (send_loop post n a) = Inr False \<Longrightarrow> attempts (send_loop post n a) = n"
proof (induction n arbitrary: a)
  case 0
  then show ?case by simp
next
  case (Suc n)
  then show ?case
    by (auto simp: slept_def returned_def raised_exn_def split: reply.splits if_splits sum.splits)
qed

lemma worker_evaluate_below:
  assumes "result (get_latest_15m_kline net) = Inr (Some k)"
    and "pct_move k = Inr pct" and "\<bar>pct\<bar> < THRESHOLD cfg"
  shows "worker_evaluate cfg tf d symb net = (Finished, [])"
  using assms by (simp add: worker_evaluate_def)

lemma worker_evaluate_fresh:
  assumes "result (get_latest_15m_kline net) = Inr (Some k)"
    and "pct_move k = Inr pct" and "THRESHOLD cfg \<le> \<bar>pct\<bar>"
    and "d \<noteq> None" and "(symb, k_open_time k) \<notin> set (rows_of d)"
  shows "worker_evaluate cfg tf d symb net
           = (Sending symb k pct,
              [Attempt symb (k_open_time k) (make_alert_text cfg tf symb k pct)])"
  using assms by (auto simp: worker_evaluate_def already_alerted_def rows_of_def)

text \<open>A candle with \<open>open = 0\<close> makes the worker raise, whatever the store holds.\<close>

lemma zero_open_raises:
  assumes "result (get_latest_15m_kline net) = Inr (Some k)" and "k_open k = 0"
  shows "worker_evaluate cfg tf d symb net = (Raised ZeroDivisionError, [])"
  using assms by (simp add: worker_evaluate_def pct_move_def fdiv_def)

text \<open>A failed send leaves any store as it is, whatever other workers did meanwhile.\<close>

lemma worker_deliver_failed:
  assumes "result (send_telegram post) = Inr False"
  shows "worker_deliver d symb k pct post = (Finished, d, [Undelivered symb (k_open_time k)], [])"
  using assms by (simp add: worker_deliver_def)

text \<open>
  Resuming one worker of a cycle twice in a row, with no other worker in between, does
  to the cycle what \<open>worker\<close> says.
\<close>

lemma worker_in_cycle:
  assumes "raised c = None" and "i < length (tasks c)" and "tasks c ! i = Fetching symb"
    and "worker cfg tf (store c) symb net post = (t, d', evs, al)"
  shows "run cfg tf [Fetched i net, Posted i post] c
           = c\<lparr>store := d', tasks := (tasks c)[i := t], events := events c @ evs,
               alerts := alerts c @ al,
               raised := (case t of Raised e \<Rightarrow> Some e | _ \<Rightarrow> None)\<rparr>"
proof -
  obtain t1 evs1 where ev: "worker_evaluate cfg tf (store c) symb net = (t1, evs1)"
    by (cases "worker_evaluate cfg tf (store c) symb net")
  show ?thesis
  proof (cases t1)
    case (Sending s k pct)
    obtain t2 d2 evs2 al2 where dl: "worker_deliver (store c) s k pct post = (t2, d2, evs2, al2)"
      by (cases "worker_deliver (store c) s k pct post") auto
    from assms ev Sending dl show ?thesis
      by (auto simp: worker_def step_def settle_def late_def split: task.splits)
  qed (use assms ev in \<open>auto simp: worker_def step_def settle_def late_def\<close>)
qed

text \<open>
  C5. When the candle of a symbol gives \<open>\<bar>pct\<bar> < THRESHOLD\<close>, the worker returns with no
  notification attempt and the store as it was; inside a cycle, whatever the other
  workers have done, resuming the worker with that candle changes only its own state.
\<close>

theorem below_threshold_silent:
  assumes "result (get_latest_15m_kline net) = Inr (Some k)"
    and "pct_move k = Inr pct" and "\<bar>pct\<bar> < THRESHOLD cfg"
  shows "worker cfg tf d symb net post = (Finished, d, [], [])
         \<and> (i < length (tasks c) \<and> tasks c ! i = Fetching symb \<longrightarrow>
              step cfg tf (Fetched i net) c = c\<lparr>tasks := (tasks c)[i := Finished]\<rparr>)"
  using worker_evaluate_below [OF assms]
  by (simp add: worker_def step_def settle_def)

theorem below_threshold_silent_witness:
  "worker example_config example_time (Some []) ''XYZUSDT'' (candle xyz_kline) accepted
     = (Finished, Some [], [], [])
   \<and> step example_config example_time (Fetched 0 (candle xyz_kline))
        \<lparr>store = Some [], tasks = [Fetching ''XYZUSDT''], events = [], alerts = [], raised = None,
         orphans = []\<rparr>
      = \<lparr>store = Some [], tasks = [Finished], events = [], alerts = [], raised = None,
         orphans = []\<rparr>"
proof -
  have h: "\<bar>2\<bar> < THRESHOLD example_config" by (simp add: example_config_def)
  from below_threshold_silent [OF fetch_candle xyz_pct h,
      where i = 0 and symb = "''XYZUSDT''" and tf = example_time and d = "Some []"
        and post = accepted
        and c = "\<lparr>store = Some [], tasks = [Fetching ''XYZUSDT''], events = [], alerts = [],
                  raised = None, orphans = []\<rparr>"]
  show ?thesis by simp
qed

text \<open>
  C2. For a symbol whose candle qualifies (\<open>\<bar>pct\<bar> \<ge> THRESHOLD\<close>) and whose key is not in
  the store, when \<^verbatim>\<open>send_telegram\<close> returns \<open>ok\<close>: the worker has made one attempt, and the
  key is in the store afterwards if and only if \<open>ok\<close> is true. If the send succeeded the
  store is the result of \<^verbatim>\<open>mark_alerted\<close>. If it failed, which takes three requests, the
  store is unchanged, and a worker that meets the same candle on that store attempts
  the notification again.
\<close>

theorem record_iff_delivered:
  assumes fetch: "result (get_latest_15m_kline net) = Inr (Some k)"
    and pct: "pct_move k = Inr pct" and thr: "THRESHOLD cfg \<le> \<bar>pct\<bar>"
    and tbl: "d \<noteq> None" and fresh: "(symb, k_open_time k) \<notin> set (rows_of d)"
    and sent: "result (send_telegram post) = Inr ok"
  shows "\<exists>d'. worker cfg tf d symb net post
            = (Finished, d',
               [Attempt symb (k_open_time k) (make_alert_text cfg tf symb k pct),
                if ok then Delivered symb (k_open_time k) else Undelivered symb (k_open_time k)],
               if ok then [(symb, pct)] else [])
          \<and> ((symb, k_open_time k) \<in> set (rows_of d')) = ok
          \<and> (ok \<longrightarrow> mark_alerted d symb (k_open_time k) = Inr d')
          \<and> (\<not> ok \<longrightarrow> d' = d \<and> attempts (send_telegram post) = 3
                \<and> fst (worker_evaluate cfg tf d' symb net) = Sending symb k pct)"
proof -
  note ev = worker_evaluate_fresh [OF fetch pct thr tbl fresh, of tf]
  from tbl obtain rows where d: "d = Some rows" by auto
  show ?thesis
  proof (cases ok)
    case True
    with ev sent d fresh show ?thesis
      by (simp add: worker_def worker_deliver_def mark_alerted_def rows_of_def)
  next
    case False
    with sent have "attempts (send_telegram post) = 3"
      by (simp add: send_telegram_def send_loop_False_attempts)
    with False ev sent fresh show ?thesis
      by (simp add: worker_def worker_deliver_def)
  qed
qed

theorem record_iff_delivered_witness:
  "(\<exists>txt. worker example_config example_time (Some []) ''ABCUSDT'' (candle abc_kline) accepted
      = (Finished, Some [(''ABCUSDT'', 1000)],
         [Attempt ''ABCUSDT'' 1000 txt, Delivered ''ABCUSDT'' 1000], [(''ABCUSDT'', - 6)]))
   \<and> (\<exists>txt. worker example_config example_time (Some []) ''ABCUSDT'' (candle abc_kline) refused
      = (Finished, Some [],
         [Attempt ''ABCUSDT'' 1000 txt, Undelivered ''ABCUSDT'' 1000], []))"
proof -
  have h3: "THRESHOLD example_config \<le> \<bar>- 6\<bar>" by (simp add: example_config_def)
  have h4: "Some ([] :: alert_key list) \<noteq> None" by simp
  have h5: "(''ABCUSDT'', k_open_time abc_kline) \<notin> set (rows_of (Some []))"
    by (simp add: rows_of_def)
  from record_iff_delivered [OF fetch_candle abc_pct h3 h4 h5 send_accepted,
      where tf = example_time]
       record_iff_delivered [OF fetch_candle abc_pct h3 h4 h5 send_refused,
      where tf = example_time]
  show ?thesis
    by (auto simp: abc_open_time mark_alerted_def)
qed

text \<open>
  C3 does not hold of the code. A candle with \<open>open = 0\<close> makes line 157 raise
  \<^verbatim>\<open>ZeroDivisionError\<close> in the worker; \<^verbatim>\<open>gather\<close> raises it in \<^verbatim>\<open>check_once\<close>, and the cycle
  ends there: in this run the candle of the second symbol, which qualifies, is never
  evaluated and no notification is attempted.
\<close>

theorem zero_open_aborts_cycle:
  "k_open zero_kline = 0
   \<and> worker_evaluate example_config example_time (Some []) ''AAAUSDT'' (candle zero_kline)
       = (Raised ZeroDivisionError, [])
   \<and> check_once example_config example_time (Some []) []
        (Response 200 (Some [perpetual ''AAAUSDT'', perpetual ''ABCUSDT'']))
        [Fetched 0 (candle zero_kline), Fetched 1 (candle abc_kline), Posted 1 accepted]
      = \<lparr>store = Some [], tasks = [Raised ZeroDivisionError, Fetching ''ABCUSDT''],
         events = [], alerts = [], raised = Some ZeroDivisionError, orphans = []\<rparr>
   \<and> cycle_result
        \<lparr>store = Some [], tasks = [Raised ZeroDivisionError, Fetching ''ABCUSDT''],
         events = [], alerts = [], raised = Some ZeroDivisionError, orphans = []\<rparr>
      = Raising ZeroDivisionError"
proof -
  have e: "worker_evaluate example_config example_time (Some []) ''AAAUSDT'' (candle zero_kline)
       = (Raised ZeroDivisionError, [])"
    by (simp add: worker_evaluate_def fetch_candle zero_pct)
  have u: "get_symbols example_config
        (Response 200 (Some [perpetual ''AAAUSDT'', perpetual ''ABCUSDT'']))
      = Inr [''AAAUSDT'', ''ABCUSDT'']"
    by (simp add: get_symbols_def raise_for_status_def perpetual_def example_config_def)
  have z: "k_open zero_kline = 0" by (simp add: zero_kline_def)
  show ?thesis
    by (simp add: z e u check_once_def db_init_def step_def settle_def late_def
                  cycle_result_def)
qed

text \<open>
  C6 does not hold of the code. The retries cover a rate-limit or block status and an
  \<^verbatim>\<open>aiohttp.ClientError\<close>. The timeout that \<^verbatim>\<open>session_ctx\<close> sets (30 seconds, line 62)
  ends a request with \<^verbatim>\<open>asyncio.TimeoutError\<close>, which is not a \<^verbatim>\<open>ClientError\<close>: line 110
  does not catch it, so \<^verbatim>\<open>get_latest_15m_kline\<close> raises at the first request, without a
  pause or a second attempt, the worker raises, and \<^verbatim>\<open>gather\<close> raises it in
  \<^verbatim>\<open>check_once\<close>. One slow symbol ends the cycle: in this run the candle of the second
  symbol, which qualifies, is never evaluated.
\<close>

theorem timeout_aborts_cycle:
  "get_latest_15m_kline timeout = \<lparr>result = Inl TimeoutError, sleeps = [], attempts = 1\<rparr>
   \<and> worker_evaluate example_config example_time (Some []) ''SLOWUSDT'' timeout
       = (Raised TimeoutError, [])
   \<and> check_once example_config example_time (Some []) []
        (Response 200 (Some [perpetual ''SLOWUSDT'', perpetual ''ABCUSDT'']))
        [Fetched 0 timeout, Fetched 1 (candle abc_kline), Posted 1 accepted]
      = \<lparr>store = Some [], tasks = [Raised TimeoutError, Fetching ''ABCUSDT''],
         events = [], alerts = [], raised = Some TimeoutError, orphans = []\<rparr>
   \<and> cycle_result
        \<lparr>store = Some [], tasks = [Raised TimeoutError, Fetching ''ABCUSDT''],
         events = [], alerts = [], raised = Some TimeoutError, orphans = []\<rparr>
      = Raising TimeoutError"
proof -
  have g: "get_latest_15m_kline timeout
      = \<lparr>result = Inl TimeoutError, sleeps = [], attempts = 1\<rparr>"
    by (simp add: get_latest_15m_kline_def timeout_def numeral_3_eq_3 raised_exn_def)
  have e: "worker_evaluate example_config example_time (Some []) ''SLOWUSDT'' timeout
       = (Raised TimeoutError, [])"
    by (simp add: worker_evaluate_def g)
  have u: "get_symbols example_config
        (Response 200 (Some [perpetual ''SLOWUSDT'', perpetual ''ABCUSDT'']))
      = Inr [''SLOWUSDT'', ''ABCUSDT'']"
    by (simp add: get_symbols_def raise_for_status_def perpetual_def example_config_def)
  show ?thesis
    by (simp add: g e u check_once_def db_init_def step_def settle_def late_def
                  cycle_result_def)
qed

section \<open>Properties of the cycle and of the loop\<close>























lemma abc_deliver_again:
  "worker_deliver (Some [(''ABCUSDT'', 1000)]) ''ABCUSDT'' abc_kline (- 6) accepted
     = (Finished, Some [(''ABCUSDT'', 1000)], [Delivered ''ABCUSDT'' 1000], [(''ABCUSDT'', - 6)])"
  by (simp add: worker_deliver_def send_accepted mark_alerted_def abc_open_time)

text \<open>A cycle that started with no worker in flight and returned leaves none.\<close>

lemma run_no_orphans: "orphans c = [] \<Longrightarrow> orphans (run cfg tf sched c) = []"
proof (induction sched arbitrary: c)
  case Nil
  then show ?case by simp
next
  case (Cons inp rest)
  have "orphans (step cfg tf inp c) = []"
    using Cons.prems
    by (cases inp)
       (auto simp: step_def settle_def resume_orphan_def split: task.splits prod.splits)
  moreover from this have "orphans (late cfg tf inp c) = []"
    using Cons.prems by (cases inp) (simp_all add: late_def)
  ultimately show ?case using Cons.IH by simp
qed

lemma returned_leaves_none:
  assumes "cycle_result (check_once cfg tf d [] u sched) = Returned al"
  shows "leftover (check_once cfg tf d [] u sched) = []"
proof -
  have o: "orphans (check_once cfg tf d [] u sched) = []"
    by (cases "get_symbols cfg u") (simp_all add: check_once_def run_no_orphans)
  from assms have "list_all (\<lambda>t. t = Finished) (tasks (check_once cfg tf d [] u sched))"
    by (auto simp: cycle_result_def split: option.splits if_splits)
  then have "filter is_Sending (tasks (check_once cfg tf d [] u sched)) = []"
    by (induction "tasks (check_once cfg tf d [] u sched)") (auto simp: list_all_iff filter_empty_conv)
  with o show ?thesis by (simp add: leftover_def)
qed


text \<open>A worker that is sending when another worker of its cycle raises still delivers
  and records its key, although the cycle has raised.\<close>

lemma delivery_after_raise:
  "check_once example_config example_time (Some []) []
     (Response 200 (Some [perpetual ''AAAUSDT'', perpetual ''ABCUSDT'']))
     [Fetched 1 (candle abc_kline), Fetched 0 (candle zero_kline), Posted 1 accepted]
     = \<lparr>store = Some [(''ABCUSDT'', 1000)], tasks = [Raised ZeroDivisionError, Finished],
        events = [Attempt ''ABCUSDT'' 1000 abc_message, Delivered ''ABCUSDT'' 1000],
        alerts = [(''ABCUSDT'', - 6)], raised = Some ZeroDivisionError, orphans = []\<rparr>"
proof -
  have e: "worker_evaluate example_config example_time (Some []) ''AAAUSDT'' (candle zero_kline)
       = (Raised ZeroDivisionError, [])"
    by (simp add: worker_evaluate_def fetch_candle zero_pct)
  have u: "get_symbols example_config
        (Response 200 (Some [perpetual ''AAAUSDT'', perpetual ''ABCUSDT'']))
      = Inr [''AAAUSDT'', ''ABCUSDT'']"
    by (simp add: get_symbols_def raise_for_status_def perpetual_def example_config_def)
  show ?thesis
    by (simp add: u e check_once_def db_init_def step_def settle_def late_def
                  abc_evaluate_fresh abc_deliver)
qed

text \<open>A worker that is still sending when its cycle raises delivers later, beside the
  worker of the next cycle.\<close>

lemma orphan_notifies_twice:
  "history (main_loop example_config example_time
      [\<lparr>universe = Response 200 (Some [perpetual ''AAAUSDT'', perpetual ''ABCUSDT'']),
        schedule = [Fetched 1 (candle abc_kline), Fetched 0 (candle zero_kline)],
        elapsed = 2\<rparr>,
       \<lparr>universe = Response 200 (Some [perpetual ''ABCUSDT'']),
        schedule = [Fetched 0 (candle abc_kline), Late 0 accepted, Posted 0 accepted],
        elapsed = 2\<rparr>]
      fresh_state)
   = [Attempt ''ABCUSDT'' 1000 abc_message, Attempt ''ABCUSDT'' 1000 abc_message,
      Delivered ''ABCUSDT'' 1000, Delivered ''ABCUSDT'' 1000]"
proof -
  have e: "worker_evaluate example_config example_time (Some []) ''AAAUSDT'' (candle zero_kline)
       = (Raised ZeroDivisionError, [])"
    by (simp add: worker_evaluate_def fetch_candle zero_pct)
  have u: "get_symbols example_config
        (Response 200 (Some [perpetual ''AAAUSDT'', perpetual ''ABCUSDT'']))
      = Inr [''AAAUSDT'', ''ABCUSDT'']"
    by (simp add: get_symbols_def raise_for_status_def perpetual_def example_config_def)
  show ?thesis
    by (simp add: fresh_state_def u e abc_universe check_once_def db_init_def step_def
                  settle_def resume_orphan_def leftover_def cycle_result_def
                  abc_evaluate_fresh abc_deliver abc_deliver_again)
qed









text \<open>
  C8. With \<^verbatim>\<open>THRESHOLD = 6\<close>, for ABCUSDT and the candle with open 100.0, close 94.0 and
  open time 1000: \<open>pct\<close> is \<open>-6.0\<close> and \<open>\<bar>pct\<bar> \<ge> 6\<close>; the first cycle sends one
  notification, whose text has the direction DOWN and the move \<^verbatim>\<open>6.00%\<close>, and records
  the key; the next cycle, with the same candle, sends nothing.
\<close>

theorem abc_scenario:
  "pct_move abc_kline = Inr (- 6)
   \<and> THRESHOLD example_config \<le> \<bar>- 6\<bar>
   \<and> main_loop example_config example_time [abc_cycle, abc_cycle] fresh_state
      = \<lparr>db_file = Some [(''ABCUSDT'', 1000)],
         history = [Attempt ''ABCUSDT'' 1000 abc_message, Delivered ''ABCUSDT'' 1000],
         prints = [SentAlerts [(''ABCUSDT'', - 6)], NoNewAlerts],
         naps = [58, 58], loop_status = Running, in_flight = []\<rparr>
   \<and> abc_message
      = ''<b>ABCUSDT</b> '' @ arrow_down @ '' DOWN'' @ [CHR 0x0A]
        @ ''Interval: 15m | Move: <b>6.00%</b>'' @ [CHR 0x0A]
        @ ''Open: 100.000000 | Close: 94.000000'' @ [CHR 0x0A]
        @ ''High: 101.000000 | Low: 93.000000'' @ [CHR 0x0A]
        @ ''Open Time: 1970-01-01 00:00:01 UTC''
   \<and> make_alert_text example_config example_time ''ABCUSDT'' abc_kline (- 6) = abc_message"
proof -
  have e: "elapsed abc_cycle = 2" by (simp add: abc_cycle_def)
  have "main_loop example_config example_time [abc_cycle, abc_cycle] fresh_state
      = \<lparr>db_file = Some [(''ABCUSDT'', 1000)],
         history = [Attempt ''ABCUSDT'' 1000 abc_message, Delivered ''ABCUSDT'' 1000],
         prints = [SentAlerts [(''ABCUSDT'', - 6)], NoNewAlerts],
         naps = [58, 58], loop_status = Running, in_flight = []\<rparr>"
    by (simp add: fresh_state_def abc_cycle_fresh abc_cycle_recorded cycle_result_def
                  leftover_def e nap_2)
  then show ?thesis
    by (simp add: abc_pct example_threshold abc_text) (simp add: abc_message_def)
qed

end
